theory Spec2Isabelle
  imports Complex_Main
begin

section \<open>EV charger simulator: the multi-EVSE session and protocol engine\<close>

text \<open>
  The development embeds the engine of the multi-EVSE application component: the charging
  physics (\<open>chargeCurve\<close>, \<open>updateTemp\<close>, \<open>tempDerating\<close>), the per-EVSE record, the
  session operations (\<open>doStartSession\<close>, \<open>doStopSession\<close>, \<open>injectFault\<close>,
  \<open>clearFault\<close>), the metering interval and the dispatcher \<open>handleCsmsMessage\<close>.

  Conventions of the embedding.
  \<^item> JavaScript numbers are modelled as \<open>real\<close>: rounding, \<open>NaN\<close> and \<open>Infinity\<close> are outside
    the model, so the configuration is taken with \<open>maxPower\<close> and \<open>chargeDurationMin\<close>
    non-zero wherever a quotient by them is read.
  \<^item> A value that may be \<open>undefined\<close> is a \<open>json option\<close>, with \<open>None\<close> for \<open>undefined\<close>.
  \<^item> Component state (\<open>evses\<close>, \<open>config\<close>, \<open>connected\<close>, \<open>simMode\<close>, \<open>logs\<close>) and the refs
    (\<open>wsRef\<close>, \<open>heartbeatRef\<close>, \<open>meterRefs\<close>) are fields of one \<open>Station\<close> record that every
    operation takes and returns. Each operation is applied atomically on the latest state.
    A callback reads the state of the moment it runs (the copies a closure or
    \<open>evseRef.current\<close> may still hold from the last render are not modelled).
  \<^item> \<open>setTimeout\<close> and \<open>setInterval\<close> put a job into the record; a separate event fires it.
    Delays are not modelled: a pending job may fire at any later moment, in any order.
  \<^item> The results of \<open>uid()\<close>, \<open>now()\<close> and \<open>Date.now()\<close> are parameters.
  \<^item> An outbound frame keeps its action and one discriminating field of its payload; a log
    line keeps its direction tag.
  \<^item> Rendering, the form widgets, the manual send buttons and the log's clear button are
    left out; they write none of the state the engine reads.
\<close>

subsection \<open>Parsed JSON\<close>

datatype json =
    JNull
  | JBool bool
  | JNum real
  | JStr string
  | JArr "json list"
  | JObj "(string \<times> json) list"

type_synonym jsval = "json option"

text \<open>\<open>v?.k\<close>: the property \<open>k\<close> of a parsed value; only objects carry payload properties.\<close>

fun getField :: "jsval \<Rightarrow> string \<Rightarrow> jsval" where
  "getField (Some (JObj kvs)) k = map_of kvs k"
| "getField _ k = None"

text \<open>\<open>v ?? d\<close>\<close>

fun nullishOr :: "jsval \<Rightarrow> json \<Rightarrow> json" where
  "nullishOr None d = d"
| "nullishOr (Some JNull) d = d"
| "nullishOr (Some v) d = v"

text \<open>\<open>v || d\<close>: the falsy values of parsed JSON are \<open>undefined\<close>, \<open>null\<close>, \<open>false\<close>, \<open>0\<close>
  and the empty string.\<close>

fun falsy :: "jsval \<Rightarrow> bool" where
  "falsy None = True"
| "falsy (Some JNull) = True"
| "falsy (Some (JBool b)) = (\<not> b)"
| "falsy (Some (JNum r)) = (r = 0)"
| "falsy (Some (JStr s)) = (s = [])"
| "falsy (Some v) = False"

definition orElse :: "jsval \<Rightarrow> json \<Rightarrow> json" where
  "orElse v d = (if falsy v then d else the v)"

text \<open>Array destructuring reads a position past the end as \<open>undefined\<close>.\<close>

definition elemAt :: "json list \<Rightarrow> nat \<Rightarrow> jsval" where
  "elemAt xs i = (if i < length xs then Some (xs ! i) else None)"

subsection \<open>Charging physics\<close>

definition chargeCurve :: "real \<Rightarrow> real" where
  "chargeCurve soc =
     (if soc < 20 then 0.75 + (soc / 20) * 0.25
      else if soc < 80 then 1.0
      else if soc < 90 then 1.0 - ((soc - 80) / 10) * 0.55
      else if soc < 95 then 0.45 - ((soc - 90) / 5) * 0.25
      else 0.20 - ((soc - 95) / 5) * 0.15)"

text \<open>\<open>updateTemp\<close> divides by \<open>maxPower\<close>. For \<open>maxPower = 0\<close> the quotient of the code is
  \<open>NaN\<close> or an infinity, which \<open>real\<close> does not have (there \<open>x / 0 = 0\<close>): the definition
  gives the code's result for a non-zero \<open>maxPower\<close> only, and every statement below about
  a value of \<open>updateTemp\<close> assumes one.\<close>

definition updateTemp :: "real \<Rightarrow> real \<Rightarrow> real \<Rightarrow> real \<Rightarrow> real" where
  "updateTemp currentTemp powerKw maxPower ambientTemp =
     (let load = powerKw / maxPower;
          heatRate = load * 0.08;
          coolRate = (currentTemp - ambientTemp) * 0.012
      in max ambientTemp (min 85 (currentTemp + heatRate - coolRate)))"

definition tempDerating :: "real \<Rightarrow> real" where
  "tempDerating temp =
     (if temp < 60 then 1.0
      else if temp < 75 then 1.0 - ((temp - 60) / 15) * 0.4
      else 0.6 - ((temp - 75) / 10) * 0.4)"

text \<open>The curve as the specification words it: straight lines between the named
  points of each band.\<close>

definition lineThrough :: "real \<Rightarrow> real \<Rightarrow> real \<Rightarrow> real \<Rightarrow> real \<Rightarrow> real" where
  "lineThrough x0 y0 x1 y1 x = y0 + (y1 - y0) * ((x - x0) / (x1 - x0))"

definition powerCurveSpec :: "real \<Rightarrow> real" where
  "powerCurveSpec s =
     (if s < 20 then lineThrough 0 0.75 20 1.0 s
      else if s \<le> 80 then 1.0
      else if s < 90 then lineThrough 80 1.0 90 0.45 s
      else if s < 95 then lineThrough 90 0.45 95 0.20 s
      else lineThrough 95 0.20 100 0.05 s)"

text \<open>The derating as the specification words it: the same construction, with the result
  clamped from below at 0.2.\<close>

definition temperatureDeratingSpec :: "real \<Rightarrow> real" where
  "temperatureDeratingSpec t =
     max 0.2 (if t < 60 then 1.0
              else if t < 75 then lineThrough 60 1.0 75 0.6 t
              else lineThrough 75 0.6 85 0.2 t)"

subsection \<open>Data model\<close>

datatype status =
    Available | Preparing | Charging | SuspendedEVSE | SuspendedEV
  | Finishing | Reserved | Unavailable | Faulted

fun statusName :: "status \<Rightarrow> string" where
  "statusName Available = ''Available''"
| "statusName Preparing = ''Preparing''"
| "statusName Charging = ''Charging''"
| "statusName SuspendedEVSE = ''SuspendedEVSE''"
| "statusName SuspendedEV = ''SuspendedEV''"
| "statusName Finishing = ''Finishing''"
| "statusName Reserved = ''Reserved''"
| "statusName Unavailable = ''Unavailable''"
| "statusName Faulted = ''Faulted''"

text \<open>The session object; \<open>ses_socEnd\<close> is its \<open>socEnd\<close> property (the configuration has a
  property of the same name).\<close>

record Session =
  startTime :: real
  energy :: real
  soc :: real
  transactionId :: string
  idTag :: json
  totalSeconds :: real
  ses_socEnd :: real

record Fault =
  errorCode :: string
  info :: string
  timestamp :: string

record Evse =
  evse_id :: int
  connectorType :: string
  status :: status
  session :: "Session option"
  temperature :: real
  fault :: "Fault option"
  power :: real

text \<open>The configuration properties the engine reads (the station identity, the URL and
  the voltage only appear in payloads and on screen).\<close>

record Config =
  maxPower :: real
  cfgConnectorType :: string
  heartbeatInterval :: real
  batteryCapacity :: real
  socStart :: real
  socEnd :: real
  chargeDurationMin :: real
  evseCount :: nat
  chargeMode :: string

definition createEvse :: "int \<Rightarrow> string \<Rightarrow> Evse" where
  "createEvse i ct =
     \<lparr> evse_id = i, connectorType = ct, status = Available, session = None,
       temperature = 28, fault = None, power = 0 \<rparr>"

subsection \<open>Station state\<close>

text \<open>Frames written to the socket. A \<open>CALL\<close> keeps its action and one field of its payload
  (\<open>eventType\<close>, \<open>connectorStatus\<close> or \<open>reason\<close>); a \<open>CALLRESULT\<close> keeps the correlation id
  and the \<open>status\<close> of its payload; a \<open>CALLERROR\<close> keeps the correlation id, the error code
  and the action its description quotes.\<close>

datatype frame =
    CALL string string
  | CALLRESULT jsval string
  | CALLERROR jsval string jsval

text \<open>\<open>wsRef.current\<close>: no socket yet, or a socket in one of the ready states.\<close>

datatype socket = NoSocket | WsConnecting | WsOpen | WsClosed

text \<open>Callbacks handed to \<open>setInterval\<close> and \<open>setTimeout\<close>, with the values their closures
  captured. \<open>MeterJob evseId txId socRange totalEnergy totalSecs\<close> is the metering callback
  of \<open>doStartSession\<close>; \<open>RampUp\<close> is its 1500 ms timeout; \<open>TargetSettle\<close> and
  \<open>TargetAvailable\<close> are the 500 ms and 2000 ms timeouts of a session that reached its
  target; \<open>StopSettle\<close> is the 2000 ms timeout of \<open>doStopSession\<close>; \<open>ResetSettle\<close> the
  1500 ms timeout of \<open>Reset\<close>; \<open>BootSend\<close> is \<open>setTimeout(sendBoot, 300)\<close>; \<open>SimResponse\<close>
  the 350 ms simulated CSMS answer.\<close>

datatype interval_job =
    HeartbeatJob
  | MeterJob int string real real real

datatype timeout_job =
    RampUp int string json real real real
  | TargetSettle int Session
  | TargetAvailable int
  | StopSettle int
  | ResetSettle
  | BootSend
  | SimResponse string

record Station =
  config :: Config
  evses :: "Evse list"
  connected :: bool
  simMode :: bool
  wsRef :: socket
  heartbeatRef :: "nat option"
  meterRefs :: "(int \<times> nat) list"
  intervals :: "(nat \<times> interval_job) list"
  timeouts :: "timeout_job list"
  nextHandle :: nat
  outbox :: "frame list"
  logs :: "string list"

datatype error = TypeError

subsection \<open>Timers, log and transport\<close>

definition setInterval :: "interval_job \<Rightarrow> Station \<Rightarrow> nat \<times> Station" where
  "setInterval job st =
     (nextHandle st,
      st\<lparr> intervals := intervals st @ [(nextHandle st, job)],
          nextHandle := Suc (nextHandle st) \<rparr>)"

text \<open>\<open>clearInterval(h)\<close>; clearing \<open>undefined\<close> does nothing.\<close>

definition clearInterval :: "nat option \<Rightarrow> Station \<Rightarrow> Station" where
  "clearInterval h st = st\<lparr> intervals := filter (\<lambda>(k, job). Some k \<noteq> h) (intervals st) \<rparr>"

definition setTimeout :: "timeout_job \<Rightarrow> Station \<Rightarrow> Station" where
  "setTimeout job st = st\<lparr> timeouts := timeouts st @ [job] \<rparr>"

text \<open>\<open>setLogs(prev => [...prev.slice(-300), entry])\<close>\<close>

definition addLog :: "string \<Rightarrow> Station \<Rightarrow> Station" where
  "addLog dir st = st\<lparr> logs := drop (length (logs st) - 300) (logs st) @ [dir] \<rparr>"

definition findEvse :: "int \<Rightarrow> Station \<Rightarrow> Evse option" where
  "findEvse i st = find (\<lambda>e. evse_id e = i) (evses st)"

text \<open>\<open>setEvses(prev => prev.map(e => e.id === id ? { ...e, ...patch } : e))\<close>\<close>

definition updateEvse :: "int \<Rightarrow> (Evse \<Rightarrow> Evse) \<Rightarrow> Station \<Rightarrow> Station" where
  "updateEvse i patch st =
     st\<lparr> evses := map (\<lambda>e. if evse_id e = i then patch e else e) (evses st) \<rparr>"

definition sendOCPP :: "string \<Rightarrow> string \<Rightarrow> Station \<Rightarrow> Station" where
  "sendOCPP action detail st =
     (let st1 = addLog ''TX'' st in
      if simMode st1 \<or> wsRef st1 = NoSocket then setTimeout (SimResponse action) st1
      else if wsRef st1 = WsOpen then st1\<lparr> outbox := outbox st1 @ [CALL action detail] \<rparr>
      else st1)"

definition simulateCsmsResponse :: "string \<Rightarrow> Station \<Rightarrow> Station" where
  "simulateCsmsResponse action st = addLog ''RX'' st"

definition replyOCPP :: "jsval \<Rightarrow> string \<Rightarrow> Station \<Rightarrow> Station" where
  "replyOCPP msgId result st =
     (if wsRef st = WsOpen
      then addLog ''TX'' (st\<lparr> outbox := outbox st @ [CALLRESULT msgId result] \<rparr>)
      else st)"

text \<open>\<open>meterRefs.current[evseId]\<close>, read and assigned.\<close>

definition meterRef :: "int \<Rightarrow> Station \<Rightarrow> nat option" where
  "meterRef i st = map_of (meterRefs st) i"

definition setMeterRef :: "int \<Rightarrow> nat \<Rightarrow> Station \<Rightarrow> Station" where
  "setMeterRef i h st =
     st\<lparr> meterRefs := (i, h) # filter (\<lambda>(k, v). k \<noteq> i) (meterRefs st) \<rparr>"

subsection \<open>Session operations\<close>

text \<open>The metering callback of \<open>doStartSession\<close>, run once per tick with the values its
  closure captured at session start.\<close>

definition meterTick :: "int \<Rightarrow> string \<Rightarrow> real \<Rightarrow> real \<Rightarrow> real \<Rightarrow> Station \<Rightarrow> Station" where
  "meterTick evseId txId socRange totalEnergy totalSecs st =
     (case findEvse evseId st of
        None \<Rightarrow> st
      | Some evse \<Rightarrow>
         (case session evse of
            None \<Rightarrow> st
          | Some ses \<Rightarrow>
             if status evse = Faulted then st
             else
               let currentCfg = config st;
                   curveMult = (if chargeMode currentCfg = ''nonlinear''
                                then chargeCurve (soc ses) else 1.0);
                   tempMult = tempDerating (temperature evse);
                   effectivePower = maxPower currentCfg * curveMult * tempMult;
                   energyPerSecBase = totalEnergy / totalSecs;
                   energyInc = energyPerSecBase * curveMult * tempMult;
                   socInc = (socRange / totalSecs) * curveMult * tempMult;
                   newSoc = min (soc ses + socInc) (socEnd currentCfg);
                   newEnergy = energy ses + energyInc;
                   newTemp = updateTemp (temperature evse) effectivePower (maxPower currentCfg) 25;
                   updatedSession = ses\<lparr> energy := newEnergy, soc := newSoc \<rparr>;
                   st1 = (if \<lfloor>newEnergy * 100\<rfloor> mod 30 = 0
                          then sendOCPP ''MeterValues'' [] st else st);
                   st2 = (if newSoc \<ge> socEnd currentCfg
                          then setTimeout (TargetSettle evseId updatedSession)
                                 (addLog ''SYS'' (clearInterval (meterRef evseId st1) st1))
                          else st1)
               in updateEvse evseId
                    (\<lambda>e. e\<lparr> session := Some updatedSession, power := effectivePower,
                             temperature := newTemp \<rparr>) st2))"

definition doStartSession :: "int \<Rightarrow> json \<Rightarrow> string \<Rightarrow> real \<Rightarrow> Station \<Rightarrow> Station" where
  "doStartSession evseId tag txId dateNow st =
     (let cfg = config st in
      case findEvse evseId st of
        None \<Rightarrow> st
      | Some evse \<Rightarrow>
         if status evse \<noteq> Available then st
         else
           let socRange = socEnd cfg - socStart cfg;
               totalEnergy = (socRange / 100) * batteryCapacity cfg;
               totalSecs = chargeDurationMin cfg * 60;
               ses = \<lparr> startTime = dateNow, energy = 0, soc = socStart cfg,
                       transactionId = txId, idTag = tag, totalSeconds = totalSecs,
                       ses_socEnd = socEnd cfg \<rparr>;
               st1 = updateEvse evseId
                       (\<lambda>e. e\<lparr> status := Preparing, session := Some ses, power := 0 \<rparr>) st;
               st2 = addLog ''SYS'' st1;
               st3 = sendOCPP ''Authorize'' [] st2
           in setTimeout (RampUp evseId txId tag socRange totalEnergy totalSecs) st3)"

text \<open>The 1500 ms callback of \<open>doStartSession\<close>.\<close>

definition rampUp :: "int \<Rightarrow> string \<Rightarrow> json \<Rightarrow> real \<Rightarrow> real \<Rightarrow> real \<Rightarrow> Station \<Rightarrow> Station" where
  "rampUp evseId txId tag socRange totalEnergy totalSecs st =
     (case findEvse evseId st of
        None \<Rightarrow> st
      | Some currentEvse \<Rightarrow>
         (case session currentEvse of
            None \<Rightarrow> st
          | Some ses \<Rightarrow>
             let st1 = updateEvse evseId (\<lambda>e. e\<lparr> status := Charging \<rparr>) st;
                 st2 = sendOCPP ''TransactionEvent'' ''Started'' st1;
                 (h, st3) = setInterval (MeterJob evseId txId socRange totalEnergy totalSecs) st2
             in setMeterRef evseId h st3))"

text \<open>The 500 ms and 2000 ms callbacks of a session that reached its target.\<close>

definition targetSettle :: "int \<Rightarrow> Session \<Rightarrow> Station \<Rightarrow> Station" where
  "targetSettle evseId updatedSession st =
     (let st1 = sendOCPP ''TransactionEvent'' ''Ended'' st;
          st2 = sendOCPP ''StatusNotification'' ''Available'' st1;
          st3 = updateEvse evseId
                  (\<lambda>e. e\<lparr> status := Finishing, session := Some updatedSession, power := 0 \<rparr>) st2
      in setTimeout (TargetAvailable evseId) st3)"

definition targetAvailable :: "int \<Rightarrow> Station \<Rightarrow> Station" where
  "targetAvailable evseId st =
     updateEvse evseId (\<lambda>e. e\<lparr> status := Available, session := None, power := 0 \<rparr>) st"

definition doStopSession :: "int \<Rightarrow> string \<Rightarrow> Station \<Rightarrow> bool \<times> Station" where
  "doStopSession evseId reason st =
     (let st0 = clearInterval (meterRef evseId st) st in
      case findEvse evseId st0 of
        None \<Rightarrow> (False, st0)
      | Some evse \<Rightarrow>
         (case session evse of
            None \<Rightarrow> (False, st0)
          | Some ses \<Rightarrow>
             let st1 = addLog ''SYS'' st0;
                 st2 = sendOCPP ''TransactionEvent'' ''Ended'' st1;
                 st3 = updateEvse evseId (\<lambda>e. e\<lparr> status := Finishing, power := 0 \<rparr>) st2
             in (True, setTimeout (StopSettle evseId) st3)))"

text \<open>The 2000 ms callback of \<open>doStopSession\<close>.\<close>

definition stopSettle :: "int \<Rightarrow> Station \<Rightarrow> Station" where
  "stopSettle evseId st =
     sendOCPP ''StatusNotification'' ''Available''
       (updateEvse evseId (\<lambda>e. e\<lparr> status := Available, session := None, power := 0 \<rparr>) st)"

definition injectFault :: "int \<Rightarrow> string \<Rightarrow> string \<Rightarrow> string \<Rightarrow> Station \<Rightarrow> Station" where
  "injectFault evseId code descr nowStr st =
     (let st0 = clearInterval (meterRef evseId st) st;
          evse = findEvse evseId st0;
          flt = \<lparr> errorCode = code, info = descr, timestamp = nowStr \<rparr>;
          st1 = (case evse of
                   None \<Rightarrow> st0
                 | Some e \<Rightarrow> (case session e of
                               None \<Rightarrow> st0
                             | Some ses \<Rightarrow> sendOCPP ''TransactionEvent'' ''Ended'' st0));
          st2 = sendOCPP ''StatusNotification'' ''Faulted'' st1;
          st3 = sendOCPP ''NotifyEvent'' [] st2;
          st4 = addLog ''FAULT'' st3
      in updateEvse evseId
           (\<lambda>e. e\<lparr> status := Faulted, fault := Some flt, session := None, power := 0 \<rparr>) st4)"

definition clearFault :: "int \<Rightarrow> Station \<Rightarrow> Station" where
  "clearFault evseId st =
     (let st1 = updateEvse evseId
                  (\<lambda>e. e\<lparr> status := Available, fault := None, power := 0 \<rparr>) st;
          st2 = sendOCPP ''StatusNotification'' ''Available'' st1
      in addLog ''SYS'' st2)"

subsection \<open>Remote command dispatcher\<close>

text \<open>The result of \<open>JSON.parse(data)\<close>: it throws, or yields a value.\<close>

datatype parsed = ParseFailure | Parsed json

text \<open>\<open>e.id === v\<close> for a parsed value \<open>v\<close>: EVSE ids are integers, so only a number with
  an integral value can be strictly equal to one.\<close>

fun evseIdOf :: "json \<Rightarrow> int option" where
  "evseIdOf (JNum r) = (if r = of_int \<lfloor>r\<rfloor> then Some \<lfloor>r\<rfloor> else None)"
| "evseIdOf v = None"

definition findEvseJ :: "json \<Rightarrow> Station \<Rightarrow> Evse option" where
  "findEvseJ v st = (case evseIdOf v of None \<Rightarrow> None | Some i \<Rightarrow> findEvse i st)"

definition updateEvseJ :: "json \<Rightarrow> (Evse \<Rightarrow> Evse) \<Rightarrow> Station \<Rightarrow> Station" where
  "updateEvseJ v patch st = (case evseIdOf v of None \<Rightarrow> st | Some i \<Rightarrow> updateEvse i patch st)"

text \<open>\<open>evseRef.current.forEach(e => { if (e.session) doStopSession(e.id, reason); })\<close>\<close>

definition stopAllSessions :: "string \<Rightarrow> Station \<Rightarrow> Station" where
  "stopAllSessions reason st =
     fold (\<lambda>e s. if session e \<noteq> None then snd (doStopSession (evse_id e) reason s) else s)
       (evses st) st"

text \<open>The \<open>switch (action)\<close> of the handler, for a \<open>CALL\<close> whose payload is defined.\<close>

definition handleCall :: "jsval \<Rightarrow> jsval \<Rightarrow> jsval \<Rightarrow> string \<Rightarrow> real \<Rightarrow> Station \<Rightarrow> Station" where
  "handleCall msgId action payload newUid dateNow st =
     (if action = Some (JStr ''RequestStartTransaction'') then
        (let evseId = nullishOr (getField payload ''evseId'') (JNum 1) in
         case findEvseJ evseId st of
           None \<Rightarrow> replyOCPP msgId ''Rejected'' st
         | Some evse \<Rightarrow>
            if status evse \<noteq> Available then replyOCPP msgId ''Rejected'' st
            else doStartSession (evse_id evse)
                   (orElse (getField (getField payload ''idToken'') ''idToken'') (JStr ''REMOTE''))
                   newUid dateNow (replyOCPP msgId ''Accepted'' st))
      else if action = Some (JStr ''RequestStopTransaction'') then
        (let txId = getField payload ''transactionId'' in
         case find (\<lambda>e. map_option (\<lambda>ses. JStr (transactionId ses)) (session e) = txId)
                (evses st) of
           None \<Rightarrow> replyOCPP msgId ''Rejected'' st
         | Some evse \<Rightarrow>
            snd (doStopSession (evse_id evse) ''Remote'' (replyOCPP msgId ''Accepted'' st)))
      else if action = Some (JStr ''Reset'') then
        setTimeout ResetSettle (stopAllSessions ''Remote'' (replyOCPP msgId ''Accepted'' st))
      else if action = Some (JStr ''ChangeAvailability'') then
        (let evseId = nullishOr (getField payload ''evseId'') (JNum 1);
             newStatus = (if getField payload ''operationalStatus'' = Some (JStr ''Inoperative'')
                          then Unavailable else Available);
             st1 = replyOCPP msgId ''Accepted'' st;
             st2 = updateEvseJ evseId (\<lambda>e. e\<lparr> status := newStatus \<rparr>) st1
         in sendOCPP ''StatusNotification'' (statusName newStatus) st2)
      else if action = Some (JStr ''TriggerMessage'') then
        (let st1 = replyOCPP msgId ''Accepted'' st;
             msg = getField payload ''requestedMessage'';
             evseId = nullishOr (getField (getField payload ''evse'') ''id'') (JNum 1);
             st2 = (if msg = Some (JStr ''Heartbeat'') then sendOCPP ''Heartbeat'' [] st1 else st1)
         in if msg = Some (JStr ''StatusNotification'')
            then sendOCPP ''StatusNotification''
                   (case findEvseJ evseId st2 of
                      None \<Rightarrow> ''Available''
                    | Some e \<Rightarrow> statusName (status e)) st2
            else st2)
      else if wsRef st = WsOpen
        then st\<lparr> outbox := outbox st @ [CALLERROR msgId ''NotImplemented'' action] \<rparr>
        else st)"

text \<open>The 1500 ms callback of \<open>Reset\<close>.\<close>

definition resetSettle :: "Station \<Rightarrow> Station" where
  "resetSettle st =
     sendOCPP ''BootNotification'' ''RemoteReset''
       (st\<lparr> evses := map (\<lambda>e. e\<lparr> status := Available, session := None, power := 0,
                                  fault := None \<rparr>) (evses st) \<rparr>)"

text \<open>\<open>handleCsmsMessage(data)\<close> on the result of parsing \<open>data\<close>. Destructuring a value that
  is not iterable throws, and so does \<open>JSON.stringify(undefined).slice\<close> in the two log
  lines that print a part of the frame; both happen before anything is written. A parsed
  string is iterable: its first element is a one-character string, never a message type.\<close>

definition handleCsmsMessage :: "parsed \<Rightarrow> string \<Rightarrow> real \<Rightarrow> Station \<Rightarrow> error + Station" where
  "handleCsmsMessage data newUid dateNow st =
     (case data of
        ParseFailure \<Rightarrow> Inr (addLog ''ERR'' st)
      | Parsed (JArr xs) \<Rightarrow>
         (let type = elemAt xs 0; msgId = elemAt xs 1; rest = drop 2 xs in
          if type = Some (JNum 3) then
            (if elemAt rest 0 = None then Inl TypeError else Inr (addLog ''RX'' st))
          else if type = Some (JNum 4) then Inr (addLog ''ERR'' st)
          else if type = Some (JNum 2) then
            (let action = elemAt rest 0; payload = elemAt rest 1 in
             if payload = None then Inl TypeError
             else Inr (handleCall msgId action payload newUid dateNow (addLog ''CSMS'' st)))
          else Inr st)
      | Parsed (JStr s) \<Rightarrow> Inr st
      | Parsed v \<Rightarrow> Inl TypeError)"

subsection \<open>Station lifecycle\<close>

definition sendBoot :: "Station \<Rightarrow> Station" where
  "sendBoot st =
     fold (\<lambda>e s. sendOCPP ''StatusNotification'' ''Available'' s) (evses st)
       (sendOCPP ''BootNotification'' ''PowerUp'' st)"

definition startHeartbeat :: "Station \<Rightarrow> Station" where
  "startHeartbeat st =
     (let (h, st1) = setInterval HeartbeatJob st in st1\<lparr> heartbeatRef := Some h \<rparr>)"

definition allAvailable :: "Station \<Rightarrow> Station" where
  "allAvailable st = st\<lparr> evses := map (\<lambda>e. e\<lparr> status := Available \<rparr>) (evses st) \<rparr>"

definition connect :: "bool \<Rightarrow> Station \<Rightarrow> Station" where
  "connect sim st =
     (if sim then
        startHeartbeat (setTimeout BootSend
          (allAvailable ((addLog ''SYS'' st)\<lparr> connected := True, simMode := True \<rparr>)))
      else st\<lparr> wsRef := WsConnecting \<rparr>)"

definition wsOnOpen :: "Station \<Rightarrow> Station" where
  "wsOnOpen st =
     startHeartbeat (setTimeout BootSend
       (allAvailable ((addLog ''SYS'' (st\<lparr> wsRef := WsOpen \<rparr>))\<lparr> connected := True \<rparr>)))"

definition wsOnClose :: "Station \<Rightarrow> Station" where
  "wsOnClose st =
     clearInterval (heartbeatRef st)
       ((addLog ''SYS'' (st\<lparr> wsRef := WsClosed \<rparr>))\<lparr> connected := False \<rparr>)"

definition disconnect :: "Station \<Rightarrow> Station" where
  "disconnect st =
     (let st1 = clearInterval (heartbeatRef st) st;
          st2 = fold (\<lambda>(i, h) s. clearInterval (Some h) s) (meterRefs st1) st1;
          st3 = stopAllSessions ''Local'' st2;
          st4 = (if wsRef st3 = NoSocket then st3 else st3\<lparr> wsRef := WsClosed \<rparr>);
          st5 = st4\<lparr> connected := False, simMode := False,
                    evses := map (\<lambda>e. e\<lparr> status := Unavailable, session := None, power := 0 \<rparr>)
                               (evses st4) \<rparr>
      in addLog ''SYS'' st5)"

text \<open>The effect that keeps the EVSE list at \<open>config.evseCount\<close> entries while disconnected.\<close>

definition syncEvses :: "Station \<Rightarrow> Station" where
  "syncEvses st =
     (let connTypes = [''CCS2'', ''CHAdeMO'', ''Type2'', ''Tesla''] in
      st\<lparr> evses :=
            map (\<lambda>i. case find (\<lambda>e. evse_id e = int i + 1) (evses st) of
                        Some existing \<Rightarrow> existing
                      | None \<Rightarrow> createEvse (int i + 1)
                                 (if i < length connTypes then connTypes ! i
                                  else cfgConnectorType (config st)))
              [0 ..< evseCount (config st)] \<rparr>)"

text \<open>The one-second effect that cools and heats every EVSE, session or not.\<close>

definition temperatureTick :: "Station \<Rightarrow> Station" where
  "temperatureTick st =
     st\<lparr> evses := map (\<lambda>e. e\<lparr> temperature :=
                                 updateTemp (temperature e) (power e) (maxPower (config st)) 25 \<rparr>)
                     (evses st) \<rparr>"

subsection \<open>Events and runs\<close>

text \<open>What can happen to the station: the operator's commands, the socket's events, a
  configuration edit, and the firing of a pending timeout or of a running interval. The
  operator's start button calls \<open>connected && doStartSession(id, idTagInput)\<close>; the socket
  delivers a message only while it is open; while connected, the configuration form only
  leaves the charge mode editable.\<close>

datatype event =
    Connect bool
  | WsOnOpen
  | WsOnError
  | WsOnClose
  | WsOnMessage parsed string real
  | Disconnect
  | OnStart int string string real
  | OnStop int
  | OnInject int string string string
  | OnClearFault int
  | ConfigChange Config
  | TemperatureTick
  | IntervalFires nat
  | TimeoutFires nat

fun fireTimeout :: "timeout_job \<Rightarrow> Station \<Rightarrow> Station" where
  "fireTimeout (RampUp evseId txId tag socRange totalEnergy totalSecs) st =
     rampUp evseId txId tag socRange totalEnergy totalSecs st"
| "fireTimeout (TargetSettle evseId updatedSession) st = targetSettle evseId updatedSession st"
| "fireTimeout (TargetAvailable evseId) st = targetAvailable evseId st"
| "fireTimeout (StopSettle evseId) st = stopSettle evseId st"
| "fireTimeout ResetSettle st = resetSettle st"
| "fireTimeout BootSend st = sendBoot st"
| "fireTimeout (SimResponse action) st = simulateCsmsResponse action st"

fun fireInterval :: "interval_job \<Rightarrow> Station \<Rightarrow> Station" where
  "fireInterval HeartbeatJob st = sendOCPP ''Heartbeat'' [] st"
| "fireInterval (MeterJob evseId txId socRange totalEnergy totalSecs) st =
     meterTick evseId txId socRange totalEnergy totalSecs st"

fun apply_event :: "event \<Rightarrow> Station \<Rightarrow> Station" where
  "apply_event (Connect sim) st = connect sim st"
| "apply_event WsOnOpen st = (if wsRef st = WsConnecting then wsOnOpen st else st)"
| "apply_event WsOnError st = addLog ''ERR'' st"
| "apply_event WsOnClose st = (if wsRef st = NoSocket then st else wsOnClose st)"
| "apply_event (WsOnMessage data newUid dateNow) st =
     (if wsRef st = WsOpen
      then (case handleCsmsMessage data newUid dateNow st of Inl err \<Rightarrow> st | Inr st' \<Rightarrow> st')
      else st)"
| "apply_event Disconnect st = disconnect st"
| "apply_event (OnStart i tag newUid dateNow) st =
     (if connected st then doStartSession i (JStr tag) newUid dateNow st else st)"
| "apply_event (OnStop i) st = snd (doStopSession i ''Local'' st)"
| "apply_event (OnInject i code descr nowStr) st = injectFault i code descr nowStr st"
| "apply_event (OnClearFault i) st = clearFault i st"
| "apply_event (ConfigChange cfg) st =
     (if connected st then st\<lparr> config := (config st)\<lparr> chargeMode := chargeMode cfg \<rparr> \<rparr>
      else syncEvses (st\<lparr> config := cfg \<rparr>))"
| "apply_event TemperatureTick st = temperatureTick st"
| "apply_event (IntervalFires h) st =
     (case map_of (intervals st) h of None \<Rightarrow> st | Some job \<Rightarrow> fireInterval job st)"
| "apply_event (TimeoutFires k) st =
     (if k < length (timeouts st)
      then fireTimeout (timeouts st ! k)
             (st\<lparr> timeouts := take k (timeouts st) @ drop (Suc k) (timeouts st) \<rparr>)
      else st)"

definition run :: "event list \<Rightarrow> Station \<Rightarrow> Station" where
  "run evs st = fold apply_event evs st"

definition initialConfig :: Config where
  "initialConfig =
     \<lparr> maxPower = 50, cfgConnectorType = ''CCS2'', heartbeatInterval = 30,
       batteryCapacity = 60, socStart = 20, socEnd = 100, chargeDurationMin = 5,
       evseCount = 2, chargeMode = ''nonlinear'' \<rparr>"

definition initialStation :: Station where
  "initialStation =
     \<lparr> config = initialConfig,
       evses = [createEvse 1 ''CCS2'', createEvse 2 ''CHAdeMO''],
       connected = False, simMode = False, wsRef = NoSocket, heartbeatRef = None,
       meterRefs = [], intervals = [], timeouts = [], nextHandle = 0,
       outbox = [], logs = [] \<rparr>"

subsection \<open>Invariants and scenarios\<close>

text \<open>The invariant of the data model as the specification states it.\<close>

definition specInvariant :: "Evse \<Rightarrow> bool" where
  "specInvariant e \<longleftrightarrow>
     ((status e = Charging \<or> status e = Preparing) \<longleftrightarrow> session e \<noteq> None)
     \<and> (status e = Faulted \<longleftrightarrow> fault e \<noteq> None)
     \<and> \<not> (session e \<noteq> None \<and> fault e \<noteq> None)"

text \<open>The part of it that every operation of the engine keeps.\<close>

definition evseInvariant :: "Evse \<Rightarrow> bool" where
  "evseInvariant e \<longleftrightarrow>
     ((status e = Charging \<or> status e = Preparing) \<longrightarrow> session e \<noteq> None)
     \<and> (status e = Faulted \<longrightarrow> fault e \<noteq> None \<and> session e = None)"

definition evsesInvariant :: "Evse list \<Rightarrow> bool" where
  "evsesInvariant es \<longleftrightarrow> distinct (map evse_id es) \<and> (\<forall>e\<in>set es. evseInvariant e)"


text \<open>Scenarios. A simulated connection with a stopped, and with a faulted, first EVSE; a
  socket connection with the first EVSE charging; and a one-minute session from 19 to 79
  percent, followed through its 61 seconds.\<close>

definition stopEvents :: "event list" where
  "stopEvents = [Connect True, OnStart 1 ''USER001'' ''TX1'' 0, OnStop 1]"

definition faultEvents :: "event list" where
  "faultEvents =
     [Connect True, OnStart 1 ''USER001'' ''TX1'' 0, OnInject 1 ''GroundFailure'' [] ''t0'']"

definition simChargingEvents :: "event list" where
  "simChargingEvents = [Connect True, OnStart 1 ''USER001'' ''TX1'' 0, TimeoutFires 2]"

definition wsChargingEvents :: "event list" where
  "wsChargingEvents =
     [Connect False, WsOnOpen, OnStart 1 ''USER001'' ''TX1'' 0, TimeoutFires 1]"








definition stopWithoutIdFrame :: json where
  "stopWithoutIdFrame = JArr [JNum 2, JStr ''m2'', JStr ''RequestStopTransaction'', JObj []]"

section \<open>Charging physics: verified properties\<close>

lemma chargeCurve_lipschitz: "\<bar>chargeCurve x - chargeCurve y\<bar> \<le> \<bar>x - y\<bar>"
  unfolding chargeCurve_def by (simp split: if_splits) argo

lemma chargeCurve_isCont: "isCont chargeCurve a"
  unfolding isCont_def LIM_eq
proof (intro allI impI)
  fix r :: real
  assume "0 < r"
  have "\<forall>x. x \<noteq> a \<and> norm (x - a) < r \<longrightarrow> norm (chargeCurve x - chargeCurve a) < r"
    using chargeCurve_lipschitz [of _ a] by (auto simp: real_norm_def intro: le_less_trans)
  with \<open>0 < r\<close>
  show "\<exists>d>0. \<forall>x. x \<noteq> a \<and> norm (x - a) < d \<longrightarrow> norm (chargeCurve x - chargeCurve a) < r"
    by blast
qed

lemma chargeCurve_spec: "chargeCurve s = powerCurveSpec s"
  unfolding chargeCurve_def powerCurveSpec_def lineThrough_def by (auto simp: field_simps)

lemma chargeCurve_bounds:
  "0 \<le> s \<Longrightarrow> s \<le> 100 \<Longrightarrow> 0.05 \<le> chargeCurve s \<and> chargeCurve s \<le> 1"
  unfolding chargeCurve_def by (auto simp: field_simps)

lemma tempDerating_bounds: "t \<le> 85 \<Longrightarrow> 0 < tempDerating t \<and> tempDerating t \<le> 1"
  unfolding tempDerating_def by (auto simp: field_simps)

lemma tempDerating_below_85: "t < 85 \<Longrightarrow> 0.2 < tempDerating t"
  unfolding tempDerating_def by (auto simp: field_simps)

text \<open>
  Claim C2. For every SOC in \<open>[0, 100]\<close> the multiplier \<open>chargeCurve\<close> is the piecewise
  curve of the specification (the lines 0.75 to 1.0 on \<open>[0, 20)\<close>, the plateau 1.0 on
  \<open>[20, 80]\<close>, the lines 1.0 to 0.45 on \<open>[80, 90)\<close>, 0.45 to 0.20 on \<open>[90, 95)\<close> and 0.20 to
  0.05 on \<open>[95, 100]\<close>), its value lies in \<open>[0, 1]\<close>, it is exactly 1 on the plateau, and it is
  continuous at the breakpoints 20, 80, 90 and 95.
\<close>

theorem chargeCurve_piecewise:
  assumes "0 \<le> s" and "s \<le> 100"
  shows "chargeCurve s = powerCurveSpec s
         \<and> 0 \<le> chargeCurve s \<and> chargeCurve s \<le> 1
         \<and> (20 \<le> s \<and> s \<le> 80 \<longrightarrow> chargeCurve s = 1)
         \<and> isCont chargeCurve 20 \<and> isCont chargeCurve 80
         \<and> isCont chargeCurve 90 \<and> isCont chargeCurve 95"
proof -
  have "chargeCurve s = powerCurveSpec s" by (rule chargeCurve_spec)
  moreover have "0 \<le> chargeCurve s \<and> chargeCurve s \<le> 1"
    using chargeCurve_bounds [OF assms] by simp
  moreover have "20 \<le> s \<and> s \<le> 80 \<longrightarrow> chargeCurve s = 1"
    by (auto simp: chargeCurve_def)
  ultimately show ?thesis by (simp add: chargeCurve_isCont)
qed

theorem chargeCurve_piecewise_witness:
  "(0::real) \<le> 50 \<and> (50::real) \<le> 100 \<and> chargeCurve 50 = powerCurveSpec 50 \<and> chargeCurve 50 = 1
   \<and> chargeCurve 10 = 0.875 \<and> powerCurveSpec 85 = 0.725"
  using chargeCurve_piecewise [of 50] chargeCurve_piecewise [of 10] chargeCurve_piecewise [of 85]
  by (simp add: powerCurveSpec_def lineThrough_def chargeCurve_def)

text \<open>
  Claim C4, as amended. \<open>tempDerating\<close> applies no clamp of its own. For every temperature
  below 85 it is the curve of the specification (1.0 below 60, the line 1.0 to 0.6 on
  \<open>[60, 75)\<close>, the line from 0.6 at 75 towards 0.2 at 85 on \<open>[75, 85)\<close>), and its value is
  above 0.2 and at most 1.
\<close>

theorem tempDerating_piecewise:
  assumes "t < 85"
  shows "tempDerating t = temperatureDeratingSpec t
         \<and> 0.2 < tempDerating t \<and> tempDerating t \<le> 1"
proof -
  have "tempDerating t = temperatureDeratingSpec t"
    using assms unfolding tempDerating_def temperatureDeratingSpec_def lineThrough_def
    by (auto simp: field_simps max_def)
  moreover have "t \<le> 85" using assms by simp
  ultimately show ?thesis
    using tempDerating_below_85 [OF assms] tempDerating_bounds [of t] by simp
qed

theorem tempDerating_piecewise_witness:
  "(70::real) < 85 \<and> tempDerating 70 = temperatureDeratingSpec 70
   \<and> tempDerating 70 = 11 / 15 \<and> 0.2 < tempDerating 70 \<and> tempDerating 70 \<le> 1
   \<and> (80::real) < 85 \<and> tempDerating 80 = temperatureDeratingSpec 80 \<and> tempDerating 80 = 0.4"
  using tempDerating_piecewise [of 70] tempDerating_piecewise [of 80]
  by (simp add: tempDerating_def)

text \<open>Above 85 the unclamped line falls below 0.2: at 90 degrees the result is 0, where the
  clamped curve of the specification gives 0.2.\<close>

theorem tempDerating_unclamped:
  "tempDerating 90 = 0 \<and> temperatureDeratingSpec 90 = 0.2 \<and> \<not> (0.2 \<le> tempDerating 90)"
  by (simp add: tempDerating_def temperatureDeratingSpec_def lineThrough_def)

section \<open>Frame lemmas and the reachable-state invariant\<close>

lemma evses_addLog [simp]: "evses (addLog d st) = evses st" by (simp add: addLog_def)
lemma evses_setTimeout [simp]: "evses (setTimeout j st) = evses st" by (simp add: setTimeout_def)
lemma evses_clearInterval [simp]: "evses (clearInterval h st) = evses st" by (simp add: clearInterval_def)
lemma evses_sendOCPP [simp]: "evses (sendOCPP a d st) = evses st" by (simp add: sendOCPP_def Let_def)
lemma evses_replyOCPP [simp]: "evses (replyOCPP m r st) = evses st" by (simp add: replyOCPP_def)
lemma evses_setMeterRef [simp]: "evses (setMeterRef i h st) = evses st" by (simp add: setMeterRef_def)
lemma evses_setInterval [simp]: "evses (snd (setInterval j st)) = evses st" by (simp add: setInterval_def)
lemma evses_updateEvse [simp]:
  "evses (updateEvse i p st) = map (\<lambda>e. if evse_id e = i then p e else e) (evses st)"
  by (simp add: updateEvse_def)
lemma inv_map:
  assumes "evsesInvariant es"
    and "\<And>e. e \<in> set es \<Longrightarrow> evse_id (g e) = evse_id e"
    and "\<And>e. e \<in> set es \<Longrightarrow> evseInvariant e \<Longrightarrow> evseInvariant (g e)"
  shows "evsesInvariant (map g es)"
proof -
  have "map evse_id (map g es) = map evse_id es" using assms(2) by (induction es) auto
  then have "distinct (map evse_id (map g es))" using assms(1) by (simp only: evsesInvariant_def)
  moreover have "\<forall>e\<in>set (map g es). evseInvariant e"
    using assms(1,3) by (auto simp: evsesInvariant_def)
  ultimately show ?thesis by (simp only: evsesInvariant_def simp_thms)
qed

lemma find_unique:
  assumes "distinct (map evse_id es)" and "find (\<lambda>e. evse_id e = i) es = Some e0"
    and "e \<in> set es" and "evse_id e = i"
  shows "e = e0"
proof -
  from assms(2) have "e0 \<in> set es" "evse_id e0 = i"
    by (auto simp: find_Some_iff)
  with assms(1,3,4) show ?thesis by (auto simp: distinct_map inj_on_def)
qed

lemma inv_patch:
  assumes "evsesInvariant es"
    and "\<And>e. evse_id (p e) = evse_id e"
    and "\<And>e. e \<in> set es \<Longrightarrow> evse_id e = i \<Longrightarrow> evseInvariant e \<Longrightarrow> evseInvariant (p e)"
  shows "evsesInvariant (map (\<lambda>e. if evse_id e = i then p e else e) es)"
  using assms by (intro inv_map) auto


lemma inv_doStartSession: "evsesInvariant (evses st) \<Longrightarrow> evsesInvariant (evses (doStartSession i tag u t st))"
  unfolding doStartSession_def Let_def
  by (auto split: option.splits intro!: inv_patch simp: evseInvariant_def)

lemma inv_set_status_Charging:
  assumes "evsesInvariant (evses st)" and "findEvse i st = Some e0" and "session e0 \<noteq> None"
    and "evses st2 = map (\<lambda>e. if evse_id e = i then e\<lparr> status := Charging \<rparr> else e) (evses st)"
  shows "evsesInvariant (evses st2)"
  unfolding assms(4)
proof (rule inv_patch [OF assms(1)])
  fix e assume "e \<in> set (evses st)" "evse_id e = i" "evseInvariant e"
  with assms have "e = e0"
    by (auto simp: evsesInvariant_def findEvse_def dest: find_unique)
  with assms(3) \<open>evseInvariant e\<close> show "evseInvariant (e\<lparr> status := Charging \<rparr>)"
    by (simp add: evseInvariant_def)
qed simp

lemma inv_rampUp: "evsesInvariant (evses st) \<Longrightarrow> evsesInvariant (evses (rampUp i tx tag a b c st))"
  unfolding rampUp_def Let_def
  apply (simp split: option.splits prod.splits)
  apply (intro allI impI conjI)
  apply (erule inv_set_status_Charging, assumption, simp)
  apply (simp add: setInterval_def)
  done

lemma inv_set_session:
  assumes "evsesInvariant (evses st)" and "findEvse i st = Some e0" and "status e0 \<noteq> Faulted"
    and "evses st2 = evses st"
  shows "evsesInvariant (evses (updateEvse i
           (\<lambda>e. e\<lparr> session := Some u, power := pw, temperature := tp \<rparr>) st2))"
  unfolding evses_updateEvse assms(4)
proof (rule inv_patch [OF assms(1)])
  fix e assume "e \<in> set (evses st)" "evse_id e = i" "evseInvariant e"
  with assms have "e = e0"
    by (auto simp: evsesInvariant_def findEvse_def dest: find_unique)
  with assms(3) \<open>evseInvariant e\<close>
  show "evseInvariant (e\<lparr> session := Some u, power := pw, temperature := tp \<rparr>)"
    by (simp add: evseInvariant_def)
qed simp

lemma inv_meterTick: "evsesInvariant (evses st) \<Longrightarrow> evsesInvariant (evses (meterTick i tx a b c st))"
proof -
  assume inv: "evsesInvariant (evses st)"
  show ?thesis
  proof (cases "findEvse i st")
    case None
    then show ?thesis using inv by (simp add: meterTick_def)
  next
    case (Some e0)
    show ?thesis
    proof (cases "session e0")
      case None
      then show ?thesis using inv Some by (simp add: meterTick_def)
    next
      case (Some ses)
      show ?thesis
      proof (cases "status e0 = Faulted")
        case True
        then show ?thesis using inv \<open>findEvse i st = Some e0\<close> Some by (simp add: meterTick_def)
      next
        case False
        show ?thesis
          unfolding meterTick_def
          apply (simp only: \<open>findEvse i st = Some e0\<close> Some option.case False if_False Let_def)
          apply (rule inv_set_session [OF inv \<open>findEvse i st = Some e0\<close> False])
          apply simp
          done
      qed
    qed
  qed
qed


lemma inv_targetSettle: "evsesInvariant (evses st) \<Longrightarrow> evsesInvariant (evses (targetSettle i u st))"
  unfolding targetSettle_def Let_def
  by (auto intro!: inv_patch simp: evseInvariant_def)

lemma inv_targetAvailable: "evsesInvariant (evses st) \<Longrightarrow> evsesInvariant (evses (targetAvailable i st))"
  unfolding targetAvailable_def
  by (auto intro!: inv_patch simp: evseInvariant_def)

lemma inv_doStopSession:
  "evsesInvariant (evses st) \<Longrightarrow> evsesInvariant (evses (snd (doStopSession i r st)))"
  unfolding doStopSession_def Let_def
  by (auto split: option.splits intro!: inv_patch simp: evseInvariant_def)

lemma inv_stopSettle: "evsesInvariant (evses st) \<Longrightarrow> evsesInvariant (evses (stopSettle i st))"
  unfolding stopSettle_def
  by (auto intro!: inv_patch simp: evseInvariant_def)

lemma inv_injectFault: "evsesInvariant (evses st) \<Longrightarrow> evsesInvariant (evses (injectFault i c d n st))"
  unfolding injectFault_def Let_def
  by (auto split: option.splits intro!: inv_patch simp: evseInvariant_def)

lemma inv_clearFault: "evsesInvariant (evses st) \<Longrightarrow> evsesInvariant (evses (clearFault i st))"
  unfolding clearFault_def Let_def
  by (auto intro!: inv_patch simp: evseInvariant_def)

lemma inv_fold_stop:
  "evsesInvariant (evses st) \<Longrightarrow>
   evsesInvariant (evses (fold (\<lambda>e s. if session e \<noteq> None then snd (doStopSession (evse_id e) r s) else s) es st))"
  by (induction es arbitrary: st) (auto intro: inv_doStopSession)

lemma inv_stopAllSessions: "evsesInvariant (evses st) \<Longrightarrow> evsesInvariant (evses (stopAllSessions r st))"
  unfolding stopAllSessions_def by (rule inv_fold_stop)

lemma inv_updateEvseJ_status:
  "evsesInvariant (evses st) \<Longrightarrow> s = Available \<or> s = Unavailable \<Longrightarrow>
   evsesInvariant (evses (updateEvseJ v (\<lambda>e. e\<lparr> status := s \<rparr>) st))"
  unfolding updateEvseJ_def
  by (auto split: option.splits intro!: inv_patch simp: evseInvariant_def)

lemma inv_handleCall:
  assumes "evsesInvariant (evses st)"
  shows "evsesInvariant (evses (handleCall m a p u t st))"
proof -
  have start: "evsesInvariant (evses (doStartSession i tag u t (replyOCPP m r st)))" for i tag r
    using assms by (intro inv_doStartSession) simp
  have stop: "evsesInvariant (evses (snd (doStopSession i r' (replyOCPP m r st))))" for i r r'
    using assms by (intro inv_doStopSession) simp
  have reset: "evsesInvariant (evses (stopAllSessions r' (replyOCPP m r st)))" for r r'
    using assms by (intro inv_stopAllSessions) simp
  have avail: "evsesInvariant (evses (updateEvseJ v (\<lambda>e. e\<lparr> status := s \<rparr>) (replyOCPP m r st)))"
    if "s = Available \<or> s = Unavailable" for v s r
    using assms that by (intro inv_updateEvseJ_status) simp_all
  show ?thesis
    unfolding handleCall_def Let_def
    using assms start stop reset avail
    by (simp split: option.splits)
qed

lemma inv_resetSettle: "evsesInvariant (evses st) \<Longrightarrow> evsesInvariant (evses (resetSettle st))"
  unfolding resetSettle_def
  by (auto intro!: inv_map simp: evseInvariant_def)

lemma inv_handleCsmsMessage:
  "evsesInvariant (evses st) \<Longrightarrow> handleCsmsMessage d u t st = Inr st' \<Longrightarrow> evsesInvariant (evses st')"
  unfolding handleCsmsMessage_def Let_def
  by (auto split: parsed.splits json.splits if_splits intro!: inv_handleCall)

lemma evses_fold_send [simp]:
  "evses (fold (\<lambda>e s. sendOCPP a d s) es st) = evses st"
  by (induction es arbitrary: st) auto

lemma inv_sendBoot: "evsesInvariant (evses st) \<Longrightarrow> evsesInvariant (evses (sendBoot st))"
  by (simp add: sendBoot_def)

lemma evses_startHeartbeat [simp]: "evses (startHeartbeat st) = evses st"
  by (simp add: startHeartbeat_def setInterval_def Let_def)

lemma inv_allAvailable: "evsesInvariant (evses st) \<Longrightarrow> evsesInvariant (evses (allAvailable st))"
  unfolding allAvailable_def
  by (auto intro!: inv_map simp: evseInvariant_def)

lemma inv_connect: "evsesInvariant (evses st) \<Longrightarrow> evsesInvariant (evses (connect sim st))"
  unfolding connect_def
  by (auto intro!: inv_allAvailable)

lemma inv_wsOnOpen: "evsesInvariant (evses st) \<Longrightarrow> evsesInvariant (evses (wsOnOpen st))"
  unfolding wsOnOpen_def
  by (auto intro!: inv_allAvailable)

lemma inv_wsOnClose: "evsesInvariant (evses st) \<Longrightarrow> evsesInvariant (evses (wsOnClose st))"
  by (simp add: wsOnClose_def)

lemma evses_fold_clear [simp]:
  "evses (fold (\<lambda>(i, h) s. clearInterval (Some h) s) rs st) = evses st"
  by (induction rs arbitrary: st) auto

lemma inv_disconnect: "evsesInvariant (evses st) \<Longrightarrow> evsesInvariant (evses (disconnect st))"
proof -
  assume inv: "evsesInvariant (evses st)"
  define st2 where "st2 = fold (\<lambda>(i, h) s. clearInterval (Some h) s) (meterRefs (clearInterval (heartbeatRef st) st)) (clearInterval (heartbeatRef st) st)"
  have "evsesInvariant (evses st2)" using inv by (simp add: st2_def)
  then have "evsesInvariant (evses (stopAllSessions ''Local'' st2))" by (rule inv_stopAllSessions)
  then have "evsesInvariant (map (\<lambda>e. e\<lparr> status := Unavailable, session := None, power := 0 \<rparr>)
                              (evses (stopAllSessions ''Local'' st2)))"
    by (auto intro!: inv_map simp: evseInvariant_def)
  then show ?thesis
    unfolding disconnect_def Let_def st2_def by simp
qed

lemma inv_syncEvses: "evsesInvariant (evses st) \<Longrightarrow> evsesInvariant (evses (syncEvses st))"
proof -
  assume inv: "evsesInvariant (evses st)"
  define f where "f = (\<lambda>i. case find (\<lambda>e. evse_id e = int i + 1) (evses st) of
                        Some existing \<Rightarrow> existing
                      | None \<Rightarrow> createEvse (int i + 1)
                                 (if i < length [''CCS2'', ''CHAdeMO'', ''Type2'', ''Tesla'']
                                  then [''CCS2'', ''CHAdeMO'', ''Type2'', ''Tesla''] ! i
                                  else cfgConnectorType (config st)))"
  have id: "evse_id (f i) = int i + 1" for i
    unfolding f_def by (auto split: option.splits simp: find_Some_iff createEvse_def)
  have ok: "evseInvariant (f i)" for i
    using inv unfolding f_def
    by (auto split: option.splits simp: find_Some_iff createEvse_def evseInvariant_def evsesInvariant_def)
  have "evse_id \<circ> f = (\<lambda>i. int i + 1)"
    by (simp add: fun_eq_iff id)
  moreover have "distinct (map (\<lambda>i. int i + 1) [0 ..< n])" for n
    by (simp add: distinct_map inj_on_def)
  ultimately have "distinct (map evse_id (map f [0 ..< n]))" for n by simp
  moreover have "\<forall>e\<in>set (map f [0 ..< n]). evseInvariant e" for n using ok by simp
  ultimately have "evsesInvariant (map f [0 ..< evseCount (config st)])"
    by (simp only: evsesInvariant_def simp_thms)
  then show ?thesis by (simp add: syncEvses_def Let_def f_def)
qed

lemma inv_temperatureTick: "evsesInvariant (evses st) \<Longrightarrow> evsesInvariant (evses (temperatureTick st))"
  unfolding temperatureTick_def
  by (auto intro!: inv_map simp: evseInvariant_def)

lemma inv_fireTimeout: "evsesInvariant (evses st) \<Longrightarrow> evsesInvariant (evses (fireTimeout j st))"
  by (cases j)
     (simp_all add: inv_rampUp inv_targetSettle inv_targetAvailable inv_stopSettle
        inv_resetSettle inv_sendBoot simulateCsmsResponse_def)

lemma inv_fireInterval: "evsesInvariant (evses st) \<Longrightarrow> evsesInvariant (evses (fireInterval j st))"
  by (cases j) (simp_all add: inv_meterTick)

lemma inv_apply_event: "evsesInvariant (evses st) \<Longrightarrow> evsesInvariant (evses (apply_event ev st))"
proof (cases ev)
  case (WsOnMessage d u t)
  assume "evsesInvariant (evses st)"
  then show ?thesis using WsOnMessage
    by (auto split: sum.splits dest: inv_handleCsmsMessage)
next
  case (ConfigChange cfg)
  assume inv: "evsesInvariant (evses st)"
  have "evsesInvariant (evses (syncEvses (st\<lparr> config := cfg \<rparr>)))"
    using inv by (intro inv_syncEvses) simp
  then show ?thesis using ConfigChange inv by simp
next
  case (TimeoutFires k)
  assume inv: "evsesInvariant (evses st)"
  have "evsesInvariant (evses (fireTimeout j (st\<lparr> timeouts := ts \<rparr>)))" for j ts
    using inv by (intro inv_fireTimeout) simp
  then show ?thesis using TimeoutFires inv by simp
qed (auto split: option.splits
       intro: inv_connect inv_wsOnOpen inv_wsOnClose inv_disconnect inv_doStartSession
         inv_doStopSession inv_injectFault inv_clearFault inv_temperatureTick inv_fireInterval)

lemma inv_run: "evsesInvariant (evses st) \<Longrightarrow> evsesInvariant (evses (run evs st))"
  unfolding run_def by (induction evs arbitrary: st) (auto intro: inv_apply_event)

lemma inv_initial: "evsesInvariant (evses initialStation)"
  by (simp add: initialStation_def createEvse_def evsesInvariant_def evseInvariant_def)



section \<open>The metering tick\<close>

lemma config_addLog [simp]: "config (addLog d st) = config st" by (simp add: addLog_def)
lemma config_setTimeout [simp]: "config (setTimeout j st) = config st" by (simp add: setTimeout_def)
lemma config_clearInterval [simp]: "config (clearInterval h st) = config st" by (simp add: clearInterval_def)
lemma config_sendOCPP [simp]: "config (sendOCPP a d st) = config st" by (simp add: sendOCPP_def Let_def)
lemma config_updateEvse [simp]: "config (updateEvse i p st) = config st" by (simp add: updateEvse_def)

lemma intervals_addLog [simp]: "intervals (addLog d st) = intervals st" by (simp add: addLog_def)
lemma intervals_setTimeout [simp]: "intervals (setTimeout j st) = intervals st" by (simp add: setTimeout_def)
lemma intervals_sendOCPP [simp]: "intervals (sendOCPP a d st) = intervals st" by (simp add: sendOCPP_def Let_def)
lemma intervals_replyOCPP [simp]: "intervals (replyOCPP m r st) = intervals st" by (simp add: replyOCPP_def)

lemma find_patch:
  "find (\<lambda>e. evse_id e = i) es = Some e0 \<Longrightarrow> evse_id (p e0) = i \<Longrightarrow>
   find (\<lambda>e. evse_id e = i) (map (\<lambda>e. if evse_id e = i then p e else e) es) = Some (p e0)"
  by (induction es) (auto split: if_splits)


lemma findEvse_id: "findEvse i st = Some e \<Longrightarrow> evse_id e = i"
  by (auto simp: findEvse_def find_Some_iff)



lemma config_meterTick [simp]: "config (meterTick i tx a b c st) = config st"
  by (simp add: meterTick_def Let_def split: option.splits)




lemmas engine_defs =
  run_def initialStation_def initialConfig_def createEvse_def connect_def startHeartbeat_def
  setInterval_def setTimeout_def allAvailable_def addLog_def doStartSession_def findEvse_def
  updateEvse_def sendOCPP_def rampUp_def setMeterRef_def clearFault_def Let_def
  doStopSession_def clearInterval_def meterRef_def injectFault_def stopSettle_def
  syncEvses_def















section \<open>State machine and dispatcher: verified properties\<close>

lemma outbox_addLog [simp]: "outbox (addLog d st) = outbox st" by (simp add: addLog_def)
lemma timeouts_addLog [simp]: "timeouts (addLog d st) = timeouts st" by (simp add: addLog_def)
lemma wsRef_addLog [simp]: "wsRef (addLog d st) = wsRef st" by (simp add: addLog_def)
lemma meterRefs_addLog [simp]: "meterRefs (addLog d st) = meterRefs st" by (simp add: addLog_def)

lemma simCharging_state:
  "run simChargingEvents initialStation =
     \<lparr> config = initialConfig,
       evses = [\<lparr> evse_id = 1, connectorType = ''CCS2'', status = Charging,
                   session = Some \<lparr> startTime = 0, energy = 0, soc = 20, transactionId = ''TX1'',
                                    idTag = JStr ''USER001'', totalSeconds = 300, ses_socEnd = 100 \<rparr>,
                   temperature = 28, fault = None, power = 0 \<rparr>,
                createEvse 2 ''CHAdeMO''],
       connected = True, simMode = True, wsRef = NoSocket, heartbeatRef = Some 0,
       meterRefs = [(1, 1)],
       intervals = [(0, HeartbeatJob), (1, MeterJob 1 ''TX1'' 80 48 300)],
       timeouts = [BootSend, SimResponse ''Authorize'', SimResponse ''TransactionEvent''],
       nextHandle = 2, outbox = [],
       logs = [''SYS'', ''SYS'', ''TX'', ''TX''] \<rparr>"
  by (simp add: simChargingEvents_def engine_defs cong: let_weak_cong)

lemma wsCharging_state:
  "run wsChargingEvents initialStation =
     \<lparr> config = initialConfig,
       evses = [\<lparr> evse_id = 1, connectorType = ''CCS2'', status = Charging,
                   session = Some \<lparr> startTime = 0, energy = 0, soc = 20, transactionId = ''TX1'',
                                    idTag = JStr ''USER001'', totalSeconds = 300, ses_socEnd = 100 \<rparr>,
                   temperature = 28, fault = None, power = 0 \<rparr>,
                createEvse 2 ''CHAdeMO''],
       connected = True, simMode = False, wsRef = WsOpen, heartbeatRef = Some 0,
       meterRefs = [(1, 1)],
       intervals = [(0, HeartbeatJob), (1, MeterJob 1 ''TX1'' 80 48 300)],
       timeouts = [BootSend], nextHandle = 2,
       outbox = [CALL ''Authorize'' [], CALL ''TransactionEvent'' ''Started''],
       logs = [''SYS'', ''SYS'', ''TX'', ''TX''] \<rparr>"
  by (simp add: wsChargingEvents_def engine_defs wsOnOpen_def cong: let_weak_cong)

lemma faulted_evses:
  "evses (run faultEvents initialStation) =
     [\<lparr> evse_id = 1, connectorType = ''CCS2'', status = Faulted, session = None,
         temperature = 28,
         fault = Some \<lparr> errorCode = ''GroundFailure'', info = [], timestamp = ''t0'' \<rparr>,
         power = 0 \<rparr>,
      createEvse 2 ''CHAdeMO'']"
  by (simp add: faultEvents_def engine_defs cong: let_weak_cong)

lemma stopped_evses:
  "evses (run stopEvents initialStation) =
     [\<lparr> evse_id = 1, connectorType = ''CCS2'', status = Finishing,
         session = Some \<lparr> startTime = 0, energy = 0, soc = 20, transactionId = ''TX1'',
                          idTag = JStr ''USER001'', totalSeconds = 300, ses_socEnd = 100 \<rparr>,
         temperature = 28, fault = None, power = 0 \<rparr>,
      createEvse 2 ''CHAdeMO'']"
  by (simp add: stopEvents_def engine_defs cong: let_weak_cong)

text \<open>
  Claim C1, as amended. In every state the station reaches from its initial state by any
  sequence of events (operator commands, socket events and inbound frames, configuration
  edits, temperature and metering ticks, timeouts), every EVSE satisfies: a status of
  Charging or Preparing implies a session, and a status of Faulted implies a fault and no
  session. A stopped session stays on its EVSE while the status is Finishing, until the
  settle timeout clears it.
\<close>

theorem reachable_evse_invariant:
  "\<forall>e\<in>set (evses (run evs initialStation)). evseInvariant e"
  using inv_run [OF inv_initial, of evs] by (simp add: evsesInvariant_def)

theorem reachable_evse_invariant_witness:
  "hd (evses (run faultEvents initialStation)) \<in> set (evses (run faultEvents initialStation))
   \<and> status (hd (evses (run faultEvents initialStation))) = Faulted
   \<and> evseInvariant (hd (evses (run faultEvents initialStation)))"
  using reachable_evse_invariant [of faultEvents]
  by (simp add: faulted_evses)

theorem finishing_keeps_session:
  "status (hd (evses (run stopEvents initialStation))) = Finishing
   \<and> session (hd (evses (run stopEvents initialStation))) \<noteq> None
   \<and> \<not> specInvariant (hd (evses (run stopEvents initialStation)))"
  by (simp add: stopped_evses specInvariant_def)

text \<open>
  Claim C9. \<open>clearFault\<close> checks nothing: on any state and for any EVSE id it sets the status
  to Available, the fault to null and the power to 0 on the EVSE of that id and leaves
  every session as it is; applied to a Charging EVSE it gives an Available EVSE that still
  holds its session.
\<close>

theorem clearFault_unconditional:
  "evses (clearFault i st) =
     map (\<lambda>e. if evse_id e = i then e\<lparr> status := Available, fault := None, power := 0 \<rparr> else e)
       (evses st)
   \<and> map session (evses (clearFault i st)) = map session (evses st)
   \<and> (findEvse i st = Some e \<longrightarrow>
        findEvse i (clearFault i st) = Some (e\<lparr> status := Available, fault := None, power := 0 \<rparr>))"
proof -
  have a: "evses (clearFault i st) =
     map (\<lambda>e. if evse_id e = i then e\<lparr> status := Available, fault := None, power := 0 \<rparr> else e)
       (evses st)"
    by (simp add: clearFault_def Let_def)
  have b: "map session (map (\<lambda>e. if evse_id e = i
              then e\<lparr> status := Available, fault := None, power := 0 \<rparr> else e) es) = map session es" for es
    by (induction es) auto
  have c: "findEvse i st = Some e \<Longrightarrow>
        findEvse i (clearFault i st) = Some (e\<lparr> status := Available, fault := None, power := 0 \<rparr>)"
    using find_patch [of i "evses st" e "\<lambda>e. e\<lparr> status := Available, fault := None, power := 0 \<rparr>"]
      findEvse_id [of i st e]
    by (simp add: clearFault_def Let_def findEvse_def)
  show ?thesis using a b c by simp
qed

theorem clearFault_unconditional_witness:
  "map_option (\<lambda>e. (status e, session e \<noteq> None))
     (findEvse 1 (run simChargingEvents initialStation)) = Some (Charging, True)
   \<and> map_option (\<lambda>e. (status e, session e \<noteq> None))
        (findEvse 1 (clearFault 1 (run simChargingEvents initialStation))) = Some (Available, True)"
  using clearFault_unconditional [of 1 "run simChargingEvents initialStation"
      "\<lparr> evse_id = 1, connectorType = ''CCS2'', status = Charging,
              session = Some \<lparr> startTime = 0, energy = 0, soc = 20, transactionId = ''TX1'',
                               idTag = JStr ''USER001'', totalSeconds = 300, ses_socEnd = 100 \<rparr>,
              temperature = 28, fault = None, power = 0 \<rparr>"]
  by (simp add: simCharging_state findEvse_def)

text \<open>
  Claim C5. For an inbound four-element CALL whose action is none of
  RequestStartTransaction, RequestStopTransaction, Reset, ChangeAvailability and
  TriggerMessage, arriving on the open socket, the handler writes exactly one frame, the
  CALLERROR with the inbound correlation id and the code NotImplemented, adds the log line
  of the inbound frame, and changes no EVSE.
\<close>

theorem unknown_action_not_implemented:
  assumes "wsRef st = WsOpen"
    and "action \<notin> {JStr ''RequestStartTransaction'', JStr ''RequestStopTransaction'',
                     JStr ''Reset'', JStr ''ChangeAvailability'', JStr ''TriggerMessage''}"
  shows "handleCsmsMessage (Parsed (JArr [JNum 2, msgId, action, payload])) newUid dateNow st
           = Inr ((addLog ''CSMS'' st)\<lparr> outbox := outbox st
                    @ [CALLERROR (Some msgId) ''NotImplemented'' (Some action)] \<rparr>)
         \<and> evses ((addLog ''CSMS'' st)\<lparr> outbox := outbox st
                    @ [CALLERROR (Some msgId) ''NotImplemented'' (Some action)] \<rparr>) = evses st"
  using assms
  by (simp add: handleCsmsMessage_def handleCall_def elemAt_def Let_def)

theorem unknown_action_not_implemented_witness:
  "wsRef (run wsChargingEvents initialStation) = WsOpen
   \<and> (\<exists>st'. handleCsmsMessage (Parsed (JArr [JNum 2, JStr ''m7'', JStr ''GetVariables'', JObj []]))
                ''TX2'' 0 (run wsChargingEvents initialStation) = Inr st'
             \<and> outbox st' = outbox (run wsChargingEvents initialStation)
                  @ [CALLERROR (Some (JStr ''m7'')) ''NotImplemented'' (Some (JStr ''GetVariables''))]
             \<and> evses st' = evses (run wsChargingEvents initialStation))"
  using unknown_action_not_implemented [of "run wsChargingEvents initialStation"
          "JStr ''GetVariables''" "JStr ''m7''" "JObj []" "''TX2''" 0]
  by (simp add: wsCharging_state)

text \<open>
  Claim C6. For an EVSE whose status is not Available, starting a session is a no-op:
  \<open>doStartSession\<close> and the operator's start command return the station unchanged, and a
  RequestStartTransaction for that EVSE (by its \<open>evseId\<close>, or EVSE 1 when the payload names
  none), arriving on the open socket, is answered with the CALLRESULT Rejected and leaves
  every EVSE (status, session, fault, power) as it was.
\<close>

theorem startSession_rejected_unless_Available:
  assumes "findEvse i st = Some e" and "status e \<noteq> Available"
  shows "doStartSession i tag newUid dateNow st = st
         \<and> apply_event (OnStart i idTagInput newUid dateNow) st = st
         \<and> (wsRef st = WsOpen
              \<and> nullishOr (getField (Some payload) ''evseId'') (JNum 1) = JNum (of_int i) \<longrightarrow>
              handleCsmsMessage
                (Parsed (JArr [JNum 2, msgId, JStr ''RequestStartTransaction'', payload]))
                newUid dateNow st
              = Inr ((addLog ''TX'' (addLog ''CSMS'' st))\<lparr> outbox := outbox st
                       @ [CALLRESULT (Some msgId) ''Rejected''] \<rparr>)
              \<and> evses ((addLog ''TX'' (addLog ''CSMS'' st))\<lparr> outbox := outbox st
                       @ [CALLRESULT (Some msgId) ''Rejected''] \<rparr>) = evses st)"
proof -
  have a: "doStartSession i tag newUid dateNow st = st" for tag
    using assms by (simp add: doStartSession_def Let_def)
  have b: "findEvseJ (JNum (of_int i)) (addLog ''CSMS'' st) = Some e"
    using assms(1) by (simp add: findEvseJ_def findEvse_def)
  have c: "addLog ''TX'' ((addLog ''CSMS'' st)\<lparr> outbox := outbox st @ [f] \<rparr>)
           = (addLog ''TX'' (addLog ''CSMS'' st))\<lparr> outbox := outbox st @ [f] \<rparr>" for f
    by (simp add: addLog_def)
  show ?thesis
    using a b assms(2)
    by (simp add: handleCsmsMessage_def handleCall_def elemAt_def Let_def replyOCPP_def c)
qed

theorem startSession_rejected_unless_Available_witness:
  "map_option status (findEvse 1 (run wsChargingEvents initialStation)) = Some Charging
   \<and> doStartSession 1 (JStr ''USER002'') ''TX2'' 5 (run wsChargingEvents initialStation)
       = run wsChargingEvents initialStation
   \<and> (\<exists>st'. handleCsmsMessage
         (Parsed (JArr [JNum 2, JStr ''m1'', JStr ''RequestStartTransaction'',
                        JObj [(''evseId'', JNum 1), (''idToken'', JObj [(''idToken'', JStr ''USER002'')])]]))
         ''TX2'' 5 (run wsChargingEvents initialStation) = Inr st'
        \<and> evses st' = evses (run wsChargingEvents initialStation)
        \<and> outbox st' = outbox (run wsChargingEvents initialStation)
             @ [CALLRESULT (Some (JStr ''m1'')) ''Rejected''])"
  using startSession_rejected_unless_Available [of 1 "run wsChargingEvents initialStation"
      "\<lparr> evse_id = 1, connectorType = ''CCS2'', status = Charging,
              session = Some \<lparr> startTime = 0, energy = 0, soc = 20, transactionId = ''TX1'',
                               idTag = JStr ''USER001'', totalSeconds = 300, ses_socEnd = 100 \<rparr>,
              temperature = 28, fault = None, power = 0 \<rparr>"
      "JStr ''USER002''" "''TX2''" 5 "''USER002''"
      "JObj [(''evseId'', JNum 1), (''idToken'', JObj [(''idToken'', JStr ''USER002'')])]"
      "JStr ''m1''"]
  by (simp add: wsCharging_state findEvse_def addLog_def)

text \<open>A RequestStopTransaction whose payload carries a transaction id, of any JSON type,
  that is the id of no session is answered with Rejected and changes no EVSE and no timer.\<close>

lemma stop_unknown_transaction_rejected:
  assumes "wsRef st = WsOpen"
    and "getField (Some payload) ''transactionId'' = Some txId"
    and "\<forall>e\<in>set (evses st). \<forall>ses. session e = Some ses \<longrightarrow> JStr (transactionId ses) \<noteq> txId"
  shows "handleCsmsMessage
           (Parsed (JArr [JNum 2, msgId, JStr ''RequestStopTransaction'', payload]))
           newUid dateNow st
         = Inr ((addLog ''TX'' (addLog ''CSMS'' st))\<lparr> outbox := outbox st
                  @ [CALLRESULT (Some msgId) ''Rejected''] \<rparr>)
         \<and> evses ((addLog ''TX'' (addLog ''CSMS'' st))\<lparr> outbox := outbox st
                  @ [CALLRESULT (Some msgId) ''Rejected''] \<rparr>) = evses st
         \<and> intervals ((addLog ''TX'' (addLog ''CSMS'' st))\<lparr> outbox := outbox st
                  @ [CALLRESULT (Some msgId) ''Rejected''] \<rparr>) = intervals st
         \<and> timeouts ((addLog ''TX'' (addLog ''CSMS'' st))\<lparr> outbox := outbox st
                  @ [CALLRESULT (Some msgId) ''Rejected''] \<rparr>) = timeouts st"
proof -
  have "find (\<lambda>e. map_option (\<lambda>ses. JStr (transactionId ses)) (session e) = Some txId) (evses st)
          = None"
    using assms(3) by (auto simp: find_None_iff)
  moreover have "addLog ''TX'' ((addLog ''CSMS'' st)\<lparr> outbox := outbox st @ [f] \<rparr>)
           = (addLog ''TX'' (addLog ''CSMS'' st))\<lparr> outbox := outbox st @ [f] \<rparr>" for f
    by (simp add: addLog_def)
  ultimately show ?thesis
    using assms(1,2)
    by (simp add: handleCsmsMessage_def handleCall_def elemAt_def Let_def replyOCPP_def)
qed

lemma stop_unknown_transaction_rejected_example:
  "wsRef (run wsChargingEvents initialStation) = WsOpen
   \<and> (\<exists>st'. handleCsmsMessage
         (Parsed (JArr [JNum 2, JStr ''m2'', JStr ''RequestStopTransaction'',
                        JObj [(''transactionId'', JStr ''TX9'')]]))
         ''TX2'' 5 (run wsChargingEvents initialStation) = Inr st'
        \<and> evses st' = evses (run wsChargingEvents initialStation)
        \<and> intervals st' = intervals (run wsChargingEvents initialStation)
        \<and> outbox st' = outbox (run wsChargingEvents initialStation)
             @ [CALLRESULT (Some (JStr ''m2'')) ''Rejected''])"
  using stop_unknown_transaction_rejected [of "run wsChargingEvents initialStation"
      "JObj [(''transactionId'', JStr ''TX9'')]" "JStr ''TX9''" "JStr ''m2''" "''TX2''" 5]
  by (simp add: wsCharging_state addLog_def createEvse_def)

text \<open>
  Claim C7, at the input where the handler departs from it. While the first EVSE charges
  transaction \<open>TX1\<close> and the second is idle, a RequestStopTransaction without a transaction
  id matches no session, yet the lookup \<open>e.session?.transactionId === txId\<close> compares
  \<open>undefined\<close> with \<open>undefined\<close> on the idle EVSE: the handler answers Accepted, not Rejected.
  No EVSE and no interval changes.
\<close>

theorem stop_without_transaction_id_accepted:
  "handleCsmsMessage (Parsed stopWithoutIdFrame) ''TX2'' 5 (run wsChargingEvents initialStation)
     = Inr ((run wsChargingEvents initialStation)
              \<lparr> outbox := outbox (run wsChargingEvents initialStation)
                   @ [CALLRESULT (Some (JStr ''m2'')) ''Accepted''],
                logs := logs (run wsChargingEvents initialStation) @ [''CSMS'', ''TX''] \<rparr>)
   \<and> map (map_option transactionId) (map session (evses (run wsChargingEvents initialStation)))
       = [Some ''TX1'', None]"
  unfolding wsCharging_state
  by (simp add: stopWithoutIdFrame_def handleCsmsMessage_def handleCall_def elemAt_def
        replyOCPP_def addLog_def doStopSession_def clearInterval_def meterRef_def findEvse_def
        createEvse_def Let_def cong: let_weak_cong)

text \<open>
  Claim C8, at the inputs where the handler departs from it. A parsed value that is not
  iterable (a number, \<open>null\<close>, an object) makes the destructuring throw, and a CALL without
  its payload element or a CALLRESULT without its payload makes the log line throw: the
  handler leaves by a TypeError and logs nothing. A frame with an unknown message type is
  dropped without a log line. Only text that does not parse is logged and discarded.
\<close>

theorem malformed_frames_throw:
  "handleCsmsMessage (Parsed (JNum 5)) newUid dateNow st = Inl TypeError
   \<and> handleCsmsMessage (Parsed JNull) newUid dateNow st = Inl TypeError
   \<and> handleCsmsMessage (Parsed (JObj kvs)) newUid dateNow st = Inl TypeError
   \<and> handleCsmsMessage (Parsed (JArr [JNum 2, JStr ''m1'', JStr ''Reset''])) newUid dateNow st
       = Inl TypeError
   \<and> handleCsmsMessage (Parsed (JArr [JNum 3, JStr ''m1''])) newUid dateNow st = Inl TypeError
   \<and> handleCsmsMessage (Parsed (JArr [JNum 9, JStr ''m1'', JObj []])) newUid dateNow st = Inr st
   \<and> handleCsmsMessage ParseFailure newUid dateNow st = Inr (addLog ''ERR'' st)"
  by (simp add: handleCsmsMessage_def elemAt_def Let_def)












end
